theory Spec2Isabelle
  imports Main
begin

section \<open>The device-side connection controller (SonarWebSocketImpl.cpp)\<close>

text \<open>
  A shallow embedding of \<^verbatim>\<open>xplat/Sonar/SonarWebSocketImpl.cpp\<close>: the controller's member
  fields are a record, every member function is a function on that record, and everything
  the code does to its collaborators (callbacks, trust store, transport, step reporting,
  log) is appended to a trace of effects, in program order.  What the collaborators answer
  is an input: a record of answers for one connection attempt, and the two folly JSON
  functions as a pair of functions.

  C++ member names end in an underscore, which is not a legal name here; the fields
  \<^verbatim>\<open>isOpen_\<close>, \<^verbatim>\<open>client_\<close>, ... are written \<open>isOpen_m\<close>, \<open>client_m\<close>, ...

  Modelling boundary.  Each handler runs atomically (the code has no locks; the two event
  bases are interleaved at the granularity of handlers).  Of the external calls inside
  \<^verbatim>\<open>startSync\<close> only \<^verbatim>\<open>createConnectedClient(...).get()\<close> is taken to throw, and what it
  throws derives from \<^verbatim>\<open>std::exception\<close>; trust-store getters, step reporting, logging,
  \<^verbatim>\<open>toJson\<close> and address parsing return normally.  \<^verbatim>\<open>callbacks_\<close> is taken to have been
  set by \<^verbatim>\<open>setCallbacks\<close>.
\<close>

subsection \<open>Constants\<close>

definition reconnectIntervalSeconds :: nat where
  "reconnectIntervalSeconds = 2"

definition connectionKeepaliveSeconds :: nat where
  "connectionKeepaliveSeconds = 10"

definition securePort :: nat where
  "securePort = 8088"

definition insecurePort :: nat where
  "insecurePort = 8089"

definition WRONG_THREAD_EXIT_MSG :: string where
  "WRONG_THREAD_EXIT_MSG =
     ''ERROR: Aborting sonar initialization because it's not running in the sonar thread.''"

subsection \<open>Values of the libraries\<close>

text \<open>\<^verbatim>\<open>folly::dynamic\<close>, without doubles; an object keeps its pairs in insertion order.\<close>

datatype dynamic =
    DNull
  | DBool bool
  | DInt int
  | DString string
  | DArray "dynamic list"
  | DObject "(string \<times> dynamic) list"

text \<open>
  \<^verbatim>\<open>folly::parseJson\<close> and \<^verbatim>\<open>folly::toJson\<close> are library code: they are parameters.
  \<open>parseJson J x = None\<close> stands for the parse throwing.
\<close>

record json_lib =
  parseJson :: "string \<Rightarrow> dynamic option"
  toJson :: "dynamic \<Rightarrow> string"

text \<open>Enumerators of \<^verbatim>\<open>folly::AsyncSocketException::AsyncSocketExceptionType\<close>.\<close>

datatype AsyncSocketExceptionType =
    UNKNOWN
  | NOT_OPEN
  | ALREADY_OPEN
  | TIMED_OUT
  | END_OF_FILE
  | INTERRUPTED
  | BAD_ARGS
  | CORRUPTED_DATA
  | INTERNAL_ERROR
  | NOT_SUPPORTED
  | INVALID_STATE
  | SSL_ERROR
  | COULD_NOT_BIND
  | NETWORK_ERROR

text \<open>
  What is thrown, or carried by a \<^verbatim>\<open>folly::exception_wrapper\<close>.  All three derive from
  \<^verbatim>\<open>std::exception\<close>; \<open>StdException\<close> is any class other than the two named ones, given
  by the name of the class.  The last string of an \<open>AsyncSocketException\<close> or a
  \<open>StdException\<close> is the text its \<^verbatim>\<open>what()\<close> returns, that of an \<open>ErrorWithPayload\<close> is its
  payload (its \<^verbatim>\<open>what()\<close> is a fixed text).
\<close>

datatype throwable =
    AsyncSocketException AsyncSocketExceptionType string
  | ErrorWithPayload string
  | StdException string string

fun what :: "throwable \<Rightarrow> string" where
  "what (AsyncSocketException t msg) = msg"
| "what (ErrorWithPayload p) = ''ErrorWithPayload''"
| "what (StdException cls msg) = msg"

fun class_name :: "throwable \<Rightarrow> string" where
  "class_name (AsyncSocketException t msg) = ''folly::AsyncSocketException''"
| "class_name (ErrorWithPayload p) = ''rsocket::ErrorWithPayload''"
| "class_name (StdException cls msg) = cls"

text \<open>
  \<^verbatim>\<open>folly::exception_wrapper::what()\<close> of a wrapper that holds a \<^verbatim>\<open>std::exception\<close>: the name
  of the class, a colon and a blank, and the exception's own \<^verbatim>\<open>what()\<close>.
\<close>

definition exception_wrapper_what :: "throwable \<Rightarrow> string" where
  "exception_wrapper_what e = class_name e @ '': '' @ what e"

definition parse_error :: throwable where
  "parse_error = StdException ''std::runtime_error'' ''json parse error''"

text \<open>\<^verbatim>\<open>std::string::c_str()\<close> read back as a C string: the bytes before the first NUL.\<close>

definition c_str :: "string \<Rightarrow> string" where
  "c_str s = takeWhile (\<lambda>c. c \<noteq> CHR 0x00) s"

datatype SSLContext = SSLContext nat

text \<open>The arguments the code gives to \<^verbatim>\<open>RSocket::createConnectedClient\<close>.\<close>

record ConnectParams =
  port :: nat
  sslContext :: "SSLContext option"
  setupPayload :: string
  responder :: bool
  keepaliveSeconds :: nat

text \<open>A connected client: the identity the transport gave it, and how it was asked for.\<close>

datatype RSocketClient = RSocketClient (clientId: nat) (params: ConnectParams)

subsection \<open>Effects on the collaborators\<close>

datatype effect =
    Log string
  | StepStart string
  | StepComplete string
  | StepFail string string
  | CallbackOnConnected
  | CallbackOnDisconnected
  | CallbackOnMessageReceived dynamic
  | StoreConnectionConfig dynamic
  | CreateConnectedClient ConnectParams
  | Disconnect RSocketClient
  | RequestResponse RSocketClient string
  | FireAndForget RSocketClient string

subsection \<open>Deferred work\<close>

text \<open>
  The closures the code hands to \<^verbatim>\<open>sonarEventBase_\<close>: the continuation of \<^verbatim>\<open>start\<close>, the
  continuation of \<^verbatim>\<open>reconnect\<close>, the lambda of \<^verbatim>\<open>sendMessage\<close> with its captured message and
  the lambda of \<^verbatim>\<open>requestSignedCertFromSonar\<close> with its captured message.
\<close>

datatype task =
    StartTask
  | ReconnectTask
  | SendMessageTask dynamic
  | RequestCertTask dynamic

text \<open>
  The callbacks the code subscribes on the transport: the pair of handlers of the
  certificate request (capturing the message) and the completion handler of the legacy
  request.  The empty completion handler of \<^verbatim>\<open>sendMessage\<close> does nothing and is not kept.
\<close>

datatype subscription =
    CertificateSubscription dynamic
  | LegacySubscription

subsection \<open>The controller\<close>

record DeviceData =
  host :: string
  os :: string
  device :: string
  app :: string

text \<open>
  Modelled from the spec: the class declaration (\<^verbatim>\<open>SonarWebSocketImpl.h\<close>) is not among the
  sources, so the types and initial values of the fields follow section 3 of the
  specification: two booleans, a non-negative integer counter (an unbounded \<open>int\<close> here)
  and an owning handle that may be empty; a fresh controller is closed, untrusted, has
  counted no failure and holds no handle.  \<open>timers\<close> are the delayed futures not yet due
  (delay in milliseconds), \<open>queue\<close> is the run queue of \<^verbatim>\<open>sonarEventBase_\<close>, \<open>subscriptions\<close>
  are the transport callbacks not yet called, \<open>trace\<close> the effects so far.
\<close>

record SonarWebSocketImpl =
  deviceData_m :: DeviceData
  isOpen_m :: bool
  connectionIsTrusted_m :: bool
  failedConnectionAttempts_m :: int
  client_m :: "RSocketClient option"
  timers :: "(nat \<times> task) list"
  queue :: "task list"
  subscriptions :: "subscription list"
  trace :: "effect list"

definition init :: "DeviceData \<Rightarrow> SonarWebSocketImpl" where
  "init dd = \<lparr> deviceData_m = dd, isOpen_m = False, connectionIsTrusted_m = False,
               failedConnectionAttempts_m = 0, client_m = None,
               timers = [], queue = [], subscriptions = [], trace = [] \<rparr>"

text \<open>What the collaborators answer during one run of \<^verbatim>\<open>startSync\<close>.\<close>

record Env =
  isInEventBaseThread :: bool
  hasRequiredFiles :: bool
  getDeviceId :: string
  getSSLContext :: SSLContext
  createCertificateSigningRequest :: string
  getCertificateDirectoryPath :: string
  createConnectedClient :: "throwable + nat"

text \<open>
  How a function ends: it returns, it throws (the state is the one at the throw), or it
  dereferences the empty \<^verbatim>\<open>client_\<close> (undefined behaviour; the state is the one before).
\<close>

datatype 'a outcome =
    Returns 'a
  | Throws throwable 'a
  | NullDereference 'a

fun state_of :: "'a outcome \<Rightarrow> 'a" where
  "state_of (Returns s) = s"
| "state_of (Throws e s) = s"
| "state_of (NullDereference s) = s"

definition emit :: "effect \<Rightarrow> SonarWebSocketImpl \<Rightarrow> SonarWebSocketImpl" where
  "emit e s = s\<lparr>trace := trace s @ [e]\<rparr>"

definition delayed :: "nat \<Rightarrow> task \<Rightarrow> SonarWebSocketImpl \<Rightarrow> SonarWebSocketImpl" where
  "delayed ms t s = s\<lparr>timers := timers s @ [(ms, t)]\<rparr>"

definition add :: "task \<Rightarrow> SonarWebSocketImpl \<Rightarrow> SonarWebSocketImpl" where
  "add t s = s\<lparr>queue := queue s @ [t]\<rparr>"

definition subscribe :: "subscription \<Rightarrow> SonarWebSocketImpl \<Rightarrow> SonarWebSocketImpl" where
  "subscribe c s = s\<lparr>subscriptions := subscriptions s @ [c]\<rparr>"

subsection \<open>Member functions\<close>

definition reconnect :: "SonarWebSocketImpl \<Rightarrow> SonarWebSocketImpl" where
  "reconnect s = delayed (reconnectIntervalSeconds * 1000) ReconnectTask s"

definition isOpen :: "SonarWebSocketImpl \<Rightarrow> bool" where
  "isOpen s = (isOpen_m s \<and> connectionIsTrusted_m s)"

definition isRunningInOwnThread :: "Env \<Rightarrow> bool" where
  "isRunningInOwnThread env = isInEventBaseThread env"

text \<open>\<^verbatim>\<open>ConnectionEvents::onConnected\<close>\<close>

definition ConnectionEvents_onConnected :: "SonarWebSocketImpl \<Rightarrow> SonarWebSocketImpl" where
  "ConnectionEvents_onConnected s =
     (let s1 = s\<lparr>isOpen_m := True\<rparr>
      in if connectionIsTrusted_m s1 then emit CallbackOnConnected s1 else s1)"

text \<open>\<^verbatim>\<open>ConnectionEvents::onDisconnected\<close>; the exception wrapper it is given is not read.\<close>

definition ConnectionEvents_onDisconnected ::
  "throwable option \<Rightarrow> SonarWebSocketImpl \<Rightarrow> SonarWebSocketImpl" where
  "ConnectionEvents_onDisconnected ew s =
     (if \<not> isOpen_m s then s
      else
        let s1 = s\<lparr>isOpen_m := False\<rparr>;
            s2 = (if connectionIsTrusted_m s1
                  then emit CallbackOnDisconnected (s1\<lparr>connectionIsTrusted_m := False\<rparr>)
                  else s1)
        in reconnect s2)"

definition ConnectionEvents_onClosed ::
  "throwable option \<Rightarrow> SonarWebSocketImpl \<Rightarrow> SonarWebSocketImpl" where
  "ConnectionEvents_onClosed e s = ConnectionEvents_onDisconnected e s"

text \<open>\<^verbatim>\<open>Responder::handleFireAndForget\<close>; the stream id is not read.\<close>

definition Responder_handleFireAndForget ::
  "json_lib \<Rightarrow> string \<Rightarrow> SonarWebSocketImpl \<Rightarrow> SonarWebSocketImpl outcome" where
  "Responder_handleFireAndForget J request s =
     (let payload = request
      in case parseJson J payload of
           None \<Rightarrow> Throws parse_error s
         | Some message \<Rightarrow> Returns (emit (CallbackOnMessageReceived message) s))"

definition start :: "SonarWebSocketImpl \<Rightarrow> SonarWebSocketImpl" where
  "start s = delayed 0 StartTask (emit (StepStart ''Start connection thread'') s)"

definition isCertificateExchangeNeeded ::
  "Env \<Rightarrow> SonarWebSocketImpl \<Rightarrow> bool \<times> SonarWebSocketImpl" where
  "isCertificateExchangeNeeded env s =
     (if failedConnectionAttempts_m s \<ge> 2 then (True, s)
      else
        let s1 = emit (StepStart ''Check required certificates are present'') s;
            s2 = (if hasRequiredFiles env
                  then emit (StepComplete ''Check required certificates are present'') s1
                  else s1)
        in (\<not> hasRequiredFiles env, s2))"

definition requestSignedCertFromSonar ::
  "Env \<Rightarrow> SonarWebSocketImpl \<Rightarrow> SonarWebSocketImpl" where
  "requestSignedCertFromSonar env s =
     (let s1 = emit (StepStart ''Generate CSR'') s;
          csr = createCertificateSigningRequest env;
          s2 = emit (StepComplete ''Generate CSR'') s1;
          message = DObject [(''method'', DString ''signCertificate''),
                             (''csr'', DString (c_str csr)),
                             (''destination'', DString (c_str (getCertificateDirectoryPath env)))];
          s3 = emit (StepStart ''Getting cert from desktop'') s2;
          s4 = add (RequestCertTask message) s3
      in s4\<lparr>failedConnectionAttempts_m := 0\<rparr>)"

definition doCertificateExchange ::
  "json_lib \<Rightarrow> Env \<Rightarrow> SonarWebSocketImpl \<Rightarrow> SonarWebSocketImpl outcome" where
  "doCertificateExchange J env s =
     (let dd = deviceData_m s;
          parameters = \<lparr> port = insecurePort, sslContext = None,
                         setupPayload = toJson J (DObject [(''os'', DString (os dd)),
                                                           (''device'', DString (device dd)),
                                                           (''app'', DString (app dd))]),
                         responder = False,
                         keepaliveSeconds = connectionKeepaliveSeconds \<rparr>;
          s1 = emit (StepStart ''Connect insecurely'') s;
          s2 = s1\<lparr>connectionIsTrusted_m := False\<rparr>;
          s3 = emit (CreateConnectedClient parameters) s2
      in case createConnectedClient env of
           Inl e \<Rightarrow> Throws e s3
         | Inr cid \<Rightarrow>
             (let s4 = s3\<lparr>client_m := Some (RSocketClient cid parameters)\<rparr>;
                  s5 = emit (StepComplete ''Connect insecurely'') s4
              in Returns (requestSignedCertFromSonar env s5)))"

definition connectSecurely ::
  "json_lib \<Rightarrow> Env \<Rightarrow> SonarWebSocketImpl \<Rightarrow> SonarWebSocketImpl outcome" where
  "connectSecurely J env s =
     (let dd = deviceData_m s;
          s1 = emit (StepStart ''Load Device Id'') s;
          deviceId = getDeviceId env;
          s2 = (if deviceId \<noteq> ''unknown'' then emit (StepComplete ''Load Device Id'') s1 else s1);
          parameters = \<lparr> port = securePort, sslContext = Some (getSSLContext env),
                         setupPayload = toJson J (DObject [(''os'', DString (os dd)),
                                                           (''device'', DString (device dd)),
                                                           (''device_id'', DString deviceId),
                                                           (''app'', DString (app dd))]),
                         responder = True,
                         keepaliveSeconds = connectionKeepaliveSeconds \<rparr>;
          s3 = emit (StepStart ''Connect securely'') s2;
          s4 = s3\<lparr>connectionIsTrusted_m := True\<rparr>;
          s5 = emit (CreateConnectedClient parameters) s4
      in case createConnectedClient env of
           Inl e \<Rightarrow> Throws e s5
         | Inr cid \<Rightarrow>
             (let s6 = s5\<lparr>client_m := Some (RSocketClient cid parameters)\<rparr>;
                  s7 = emit (StepComplete ''Connect securely'') s6
              in Returns (s7\<lparr>failedConnectionAttempts_m := 0\<rparr>)))"

text \<open>
  The two handlers of \<^verbatim>\<open>startSync\<close>: the first for an \<^verbatim>\<open>AsyncSocketException\<close>, the second
  for every other \<^verbatim>\<open>std::exception\<close>.
\<close>

fun startSync_catch :: "throwable \<Rightarrow> SonarWebSocketImpl \<Rightarrow> SonarWebSocketImpl" where
  "startSync_catch (AsyncSocketException t msg) s =
     (let s1 = (if t = NOT_OPEN
                then emit (StepFail ''Connect to desktop'' ''Port not open'') s
                else
                  (let l = emit (Log msg) s;
                       c = l\<lparr>failedConnectionAttempts_m := failedConnectionAttempts_m l + 1\<rparr>
                   in emit (StepFail ''Connect to desktop'' msg) c))
      in reconnect s1)"
| "startSync_catch e s =
     (let l = emit (Log (what e)) s;
          f = emit (StepFail ''Connect to desktop'' (what e)) l;
          c = f\<lparr>failedConnectionAttempts_m := failedConnectionAttempts_m f + 1\<rparr>
      in reconnect c)"

definition startSync :: "json_lib \<Rightarrow> Env \<Rightarrow> SonarWebSocketImpl \<Rightarrow> SonarWebSocketImpl" where
  "startSync J env s =
     (if \<not> isRunningInOwnThread env then emit (Log WRONG_THREAD_EXIT_MSG) s
      else if isOpen s then emit (Log ''Already connected'') s
      else
        let s1 = emit (StepStart ''Connect to desktop'') s;
            (needed, s2) = isCertificateExchangeNeeded env s1;
            body = (if needed then doCertificateExchange J env s2
                    else (case connectSecurely J env s2 of
                            Returns s3 \<Rightarrow> Returns (emit (StepComplete ''Connect to desktop'') s3)
                          | r \<Rightarrow> r))
        in case body of
             Returns s' \<Rightarrow> s'
           | Throws e s' \<Rightarrow> startSync_catch e s'
           | NullDereference s' \<Rightarrow> s')"

definition stop :: "SonarWebSocketImpl \<Rightarrow> SonarWebSocketImpl" where
  "stop s =
     (let s1 = (case client_m s of Some c \<Rightarrow> emit (Disconnect c) s | None \<Rightarrow> s)
      in s1\<lparr>client_m := None\<rparr>)"

definition sendMessage :: "dynamic \<Rightarrow> SonarWebSocketImpl \<Rightarrow> SonarWebSocketImpl" where
  "sendMessage message s = add (SendMessageTask message) s"

text \<open>The lambda of \<^verbatim>\<open>sendMessage\<close>, when the event base runs it.\<close>

definition sendMessage_lambda ::
  "json_lib \<Rightarrow> dynamic \<Rightarrow> SonarWebSocketImpl \<Rightarrow> SonarWebSocketImpl" where
  "sendMessage_lambda J message s =
     (case client_m s of
        Some c \<Rightarrow> emit (FireAndForget c (toJson J message)) s
      | None \<Rightarrow> s)"

text \<open>The lambda of \<^verbatim>\<open>requestSignedCertFromSonar\<close>: it reads \<^verbatim>\<open>client_\<close> without a test.\<close>

definition requestSignedCert_lambda ::
  "json_lib \<Rightarrow> dynamic \<Rightarrow> SonarWebSocketImpl \<Rightarrow> SonarWebSocketImpl outcome" where
  "requestSignedCert_lambda J message s =
     (case client_m s of
        None \<Rightarrow> NullDereference s
      | Some c \<Rightarrow>
          Returns (subscribe (CertificateSubscription message)
                     (emit (RequestResponse c (toJson J message)) s)))"

text \<open>The success handler of the certificate request.\<close>

definition requestSignedCert_onResponse ::
  "json_lib \<Rightarrow> string \<Rightarrow> SonarWebSocketImpl \<Rightarrow> SonarWebSocketImpl outcome" where
  "requestSignedCert_onResponse J p s =
     (let response = p;
          stored = (if response \<noteq> []
                    then (case parseJson J response of
                            None \<Rightarrow> Throws parse_error s
                          | Some config \<Rightarrow> Returns (emit (StoreConnectionConfig config) s))
                    else Returns s)
      in case stored of
           Returns s1 \<Rightarrow>
             (let s2 = emit (StepComplete ''Getting cert from desktop'') s1;
                  s3 = emit (Log ''Certificate exchange complete.'') s2
              in Returns (s3\<lparr>client_m := None\<rparr>))
         | r \<Rightarrow> r)"

definition sendLegacyCertificateRequest ::
  "json_lib \<Rightarrow> dynamic \<Rightarrow> SonarWebSocketImpl \<Rightarrow> SonarWebSocketImpl outcome" where
  "sendLegacyCertificateRequest J message s =
     (let s1 = emit (StepStart ''Sending fallback certificate request'') s
      in case client_m s1 of
           None \<Rightarrow> NullDereference s1
         | Some c \<Rightarrow>
             Returns (subscribe LegacySubscription
                        (emit (FireAndForget c (toJson J message)) s1)))"

text \<open>The completion handler subscribed by \<^verbatim>\<open>sendLegacyCertificateRequest\<close>.\<close>

definition sendLegacyCertificateRequest_onComplete ::
  "SonarWebSocketImpl \<Rightarrow> SonarWebSocketImpl" where
  "sendLegacyCertificateRequest_onComplete s =
     (let s1 = emit (StepComplete ''Sending fallback certificate request'') s
      in s1\<lparr>client_m := None\<rparr>)"

text \<open>
  The error handler of the certificate request, with the message it captured.
  \<^verbatim>\<open>compare\<close> is non-zero when the strings differ.  The second handler logs the
  concatenation of its text and the wrapper's \<^verbatim>\<open>what()\<close>, read through \<^verbatim>\<open>c_str()\<close>.
\<close>

fun requestSignedCert_onError ::
  "json_lib \<Rightarrow> dynamic \<Rightarrow> throwable \<Rightarrow> SonarWebSocketImpl \<Rightarrow> SonarWebSocketImpl outcome" where
  "requestSignedCert_onError J message (ErrorWithPayload errorMessage) s =
     (if errorMessage \<noteq> ''not implemented''
      then Returns (emit (Log (''Desktop failed to provide certificates. Error from sonar desktop:''
                               @ [CHR 0x0A] @ errorMessage)) s)
      else sendLegacyCertificateRequest J message s)"
| "requestSignedCert_onError J message e s =
     Returns (emit (Log (c_str (''Error during certificate exchange:''
                                @ exception_wrapper_what e))) s)"

subsection \<open>Events\<close>

text \<open>
  What can happen to a controller: a call of its public interface, a delayed future
  becoming due (its continuation joins the run queue), the event base running the head of
  its queue, a lifecycle notification of the transport, an inbound fire-and-forget frame
  for the responder, and the transport calling back one of the subscriptions.  A timer may
  fire at any time; the delays only order nothing here.
\<close>

datatype event =
    Start
  | Stop
  | SendMessage dynamic
  | TimerFires nat
  | RunTask Env
  | TransportConnected
  | TransportDisconnected "throwable option"
  | TransportClosed "throwable option"
  | InboundFireAndForget string
  | CertificateResponse nat string
  | CertificateError nat throwable
  | FireAndForgetComplete nat

definition remove_nth :: "nat \<Rightarrow> 'a list \<Rightarrow> 'a list" where
  "remove_nth i xs = take i xs @ drop (Suc i) xs"

text \<open>A task runs on \<^verbatim>\<open>sonarEventBase_\<close>, so \<^verbatim>\<open>isInEventBaseThread\<close> answers true there.\<close>

fun runTask ::
  "json_lib \<Rightarrow> Env \<Rightarrow> task \<Rightarrow> SonarWebSocketImpl \<Rightarrow> SonarWebSocketImpl outcome" where
  "runTask J env StartTask s =
     Returns (startSync J (env\<lparr>isInEventBaseThread := True\<rparr>)
                (emit (StepComplete ''Start connection thread'') s))"
| "runTask J env ReconnectTask s = Returns (startSync J (env\<lparr>isInEventBaseThread := True\<rparr>) s)"
| "runTask J env (SendMessageTask message) s = Returns (sendMessage_lambda J message s)"
| "runTask J env (RequestCertTask message) s = requestSignedCert_lambda J message s"

text \<open>The responder exists on the client made by \<^verbatim>\<open>connectSecurely\<close> only.\<close>

definition has_responder :: "SonarWebSocketImpl \<Rightarrow> bool" where
  "has_responder s = (case client_m s of Some c \<Rightarrow> responder (params c) | None \<Rightarrow> False)"

fun step :: "json_lib \<Rightarrow> event \<Rightarrow> SonarWebSocketImpl \<Rightarrow> SonarWebSocketImpl outcome" where
  "step J Start s = Returns (start s)"
| "step J Stop s = Returns (stop s)"
| "step J (SendMessage message) s = Returns (sendMessage message s)"
| "step J (TimerFires i) s =
     (if i < length (timers s)
      then Returns (add (snd (timers s ! i)) (s\<lparr>timers := remove_nth i (timers s)\<rparr>))
      else Returns s)"
| "step J (RunTask env) s =
     (case queue s of
        [] \<Rightarrow> Returns s
      | t # q \<Rightarrow> runTask J env t (s\<lparr>queue := q\<rparr>))"
| "step J TransportConnected s = Returns (ConnectionEvents_onConnected s)"
| "step J (TransportDisconnected ew) s = Returns (ConnectionEvents_onDisconnected ew s)"
| "step J (TransportClosed ew) s = Returns (ConnectionEvents_onClosed ew s)"
| "step J (InboundFireAndForget request) s =
     (if has_responder s then Responder_handleFireAndForget J request s else Returns s)"
| "step J (CertificateResponse i p) s =
     (if i < length (subscriptions s)
      then (case subscriptions s ! i of
              CertificateSubscription message \<Rightarrow>
                requestSignedCert_onResponse J p
                  (s\<lparr>subscriptions := remove_nth i (subscriptions s)\<rparr>)
            | LegacySubscription \<Rightarrow> Returns s)
      else Returns s)"
| "step J (CertificateError i e) s =
     (if i < length (subscriptions s)
      then (case subscriptions s ! i of
              CertificateSubscription message \<Rightarrow>
                requestSignedCert_onError J message e
                  (s\<lparr>subscriptions := remove_nth i (subscriptions s)\<rparr>)
            | LegacySubscription \<Rightarrow> Returns s)
      else Returns s)"
| "step J (FireAndForgetComplete i) s =
     (if i < length (subscriptions s)
      then (case subscriptions s ! i of
              LegacySubscription \<Rightarrow>
                Returns (sendLegacyCertificateRequest_onComplete
                           (s\<lparr>subscriptions := remove_nth i (subscriptions s)\<rparr>))
            | CertificateSubscription message \<Rightarrow> Returns s)
      else Returns s)"

text \<open>A run stops at the first handler that does not return.\<close>

fun run :: "json_lib \<Rightarrow> event list \<Rightarrow> SonarWebSocketImpl \<Rightarrow> SonarWebSocketImpl outcome" where
  "run J [] s = Returns s"
| "run J (e # es) s =
     (case step J e s of
        Returns s' \<Rightarrow> run J es s'
      | r \<Rightarrow> r)"

subsection \<open>Observations on a trace\<close>

text \<open>The effects a transition added: the trace only grows at its end.\<close>

definition new_effects :: "SonarWebSocketImpl \<Rightarrow> SonarWebSocketImpl \<Rightarrow> effect list" where
  "new_effects s s' = drop (length (trace s)) (trace s')"

fun connect_attempts :: "effect list \<Rightarrow> ConnectParams list" where
  "connect_attempts [] = []"
| "connect_attempts (CreateConnectedClient p # es) = p # connect_attempts es"
| "connect_attempts (e # es) = connect_attempts es"

fun is_callback :: "effect \<Rightarrow> bool" where
  "is_callback CallbackOnConnected = True"
| "is_callback CallbackOnDisconnected = True"
| "is_callback (CallbackOnMessageReceived m) = True"
| "is_callback e = False"

definition callbacks :: "effect list \<Rightarrow> effect list" where
  "callbacks es = filter is_callback es"

fun is_store :: "effect \<Rightarrow> bool" where
  "is_store (StoreConnectionConfig c) = True"
| "is_store e = False"

fun is_send :: "effect \<Rightarrow> bool" where
  "is_send (RequestResponse c p) = True"
| "is_send (FireAndForget c p) = True"
| "is_send e = False"

text \<open>
  Which path an attempt took, read from the ports it asked the transport to connect to.
\<close>

definition bootstrap_path_taken :: "SonarWebSocketImpl \<Rightarrow> SonarWebSocketImpl \<Rightarrow> bool" where
  "bootstrap_path_taken s s' = (map port (connect_attempts (new_effects s s')) = [insecurePort])"

definition secure_path_taken :: "SonarWebSocketImpl \<Rightarrow> SonarWebSocketImpl \<Rightarrow> bool" where
  "secure_path_taken s s' = (map port (connect_attempts (new_effects s s')) = [securePort])"

definition secure_attempt :: "effect list \<Rightarrow> bool" where
  "secure_attempt es = (securePort \<in> set (map port (connect_attempts es)))"

text \<open>A run in which no handler asks the transport for a connection to the secure port.\<close>

fun no_secure_attempt :: "json_lib \<Rightarrow> event list \<Rightarrow> SonarWebSocketImpl \<Rightarrow> bool" where
  "no_secure_attempt J [] s = True"
| "no_secure_attempt J (e # es) s =
     (\<not> secure_attempt (new_effects s (state_of (step J e s))) \<and>
      (case step J e s of Returns s' \<Rightarrow> no_secure_attempt J es s' | r \<Rightarrow> True))"

text \<open>An event that runs \<open>startSync\<close>: the event base takes a start or reconnect continuation.\<close>

definition runs_startSync :: "event \<Rightarrow> SonarWebSocketImpl \<Rightarrow> bool" where
  "runs_startSync e s =
     (case e of
        RunTask env \<Rightarrow>
          (case queue s of
             [] \<Rightarrow> False
           | t # q \<Rightarrow> t = StartTask \<or> t = ReconnectTask)
      | _ \<Rightarrow> False)"

text \<open>Whether a handler came back normally.\<close>

fun returns :: "'a outcome \<Rightarrow> bool" where
  "returns (Returns s) = True"
| "returns r = False"

text \<open>The two callbacks that tell the application that it is connected or disconnected.\<close>

fun is_lifecycle_callback :: "effect \<Rightarrow> bool" where
  "is_lifecycle_callback CallbackOnConnected = True"
| "is_lifecycle_callback CallbackOnDisconnected = True"
| "is_lifecycle_callback e = False"

definition lifecycle_callbacks :: "effect list \<Rightarrow> effect list" where
  "lifecycle_callbacks es = filter is_lifecycle_callback es"

subsection \<open>Sample inputs\<close>

definition dd0 :: DeviceData where
  "dd0 = \<lparr> host = ''localhost'', os = ''Android'', device = ''Pixel'', app = ''Demo'' \<rparr>"

text \<open>A stand-in for the JSON library, enough to tell two payloads apart.\<close>

definition J0 :: json_lib where
  "J0 = \<lparr> parseJson = (\<lambda>x. if x = ''{}'' then Some (DObject [])
                           else if x = ''[1]'' then Some (DArray [DInt 1]) else None),
          toJson = (\<lambda>d. case d of DObject ((k, DString v) # r) \<Rightarrow> k @ ''='' @ v
                                  | _ \<Rightarrow> ''null'') \<rparr>"

definition env0 :: "bool \<Rightarrow> throwable + nat \<Rightarrow> Env" where
  "env0 has r = \<lparr> isInEventBaseThread = True, hasRequiredFiles = has, getDeviceId = ''dev-1'',
      getSSLContext = SSLContext 0, createCertificateSigningRequest = ''CSR'',
      getCertificateDirectoryPath = ''/certs'', createConnectedClient = r \<rparr>"

text \<open>Two secure attempts in a row that fail in the handshake.\<close>

definition two_failures :: "event list" where
  "two_failures =
     [Start, TimerFires 0, RunTask (env0 True (Inl (StdException ''std::runtime_error'' ''handshake failed''))),
      TimerFires 0, RunTask (env0 True (Inl (AsyncSocketException SSL_ERROR ''ssl'')))]"

text \<open>
  What follows a bootstrap connect: the transport reports the channel connected, the
  certificate request goes out, the application sends a message.
\<close>

definition bootstrap_events :: "event list" where
  "bootstrap_events =
     [TransportConnected, RunTask (env0 False (Inr 2)),
      SendMessage (DObject [(''method'', DString ''ping'')]), RunTask (env0 False (Inr 2)),
      RunTask (env0 False (Inr 2))]"

text \<open>The desktop is not listening.\<close>

definition refused :: Env where
  "refused = env0 True (Inl (AsyncSocketException NOT_OPEN ''connection refused''))"

text \<open>
  A first attempt finds the port closed and schedules a reconnect; then \<open>stop\<close> is called;
  then the timer fires, the desktop is there, and the transport reports the connection.
\<close>

definition before_stop :: "event list" where
  "before_stop = [Start, TimerFires 0, RunTask refused]"

definition after_stop :: "event list" where
  "after_stop = [TimerFires 0, RunTask (env0 True (Inr 7)), TransportConnected]"

text \<open>A first attempt that connects securely.\<close>

definition connected :: "event list" where
  "connected = [Start, TimerFires 0, RunTask (env0 True (Inr 7)), TransportConnected]"

text \<open>
  A first attempt without certificate files: the bootstrap channel connects and the
  certificate request has gone out.
\<close>

definition exchanging :: "event list" where
  "exchanging = [Start, TimerFires 0, RunTask (env0 False (Inr 1)), TransportConnected,
     RunTask (env0 False (Inr 1))]"

definition bootstrap_client :: RSocketClient where
  "bootstrap_client = RSocketClient 1 \<lparr> port = 8089, sslContext = None,
     setupPayload = ''os=Android'', responder = False, keepaliveSeconds = 10 \<rparr>"

definition secure_client :: RSocketClient where
  "secure_client = RSocketClient 7 \<lparr> port = 8088, sslContext = Some (SSLContext 0),
     setupPayload = ''os=Android'', responder = True, keepaliveSeconds = 10 \<rparr>"

definition ping :: dynamic where
  "ping = DObject [(''method'', DString ''ping'')]"

text \<open>
  The application sends a message after \<open>start\<close>, while the first \<open>startSync\<close> is still
  waiting in the run queue; then the connect succeeds and the queue is drained.
\<close>

definition starting :: "event list" where
  "starting = [Start, TimerFires 0]"

definition early_send :: "event list" where
  "early_send = starting @ [SendMessage ping, RunTask (env0 True (Inr 7)), TransportConnected,
     RunTask (env0 True (Inr 7))]"

text \<open>
  While the bootstrap channel is connected and the certificate request is out, \<open>start\<close> is
  called again and the secure connect of that second attempt fails in the handshake.
\<close>

definition handshake_fails :: Env where
  "handshake_fails = env0 True (Inl (AsyncSocketException SSL_ERROR ''handshake failed''))"

definition stale_trust :: "event list" where
  "stale_trust = exchanging @ [Start, TimerFires 0, RunTask handshake_fails]"

text \<open>
  A bootstrap channel from connect to teardown: the request goes out, the desktop answers,
  the handle is dropped, the transport reports the channel closed, the reconnect is due.
\<close>

definition bootstrap_teardown :: "event list" where
  "bootstrap_teardown =
     [TransportConnected, RunTask refused, CertificateResponse 0 ''{}'', TransportClosed None,
      TransportDisconnected None, TimerFires 0]"

section \<open>Properties\<close>

lemmas startSync_defs =
  startSync_def isRunningInOwnThread_def isCertificateExchangeNeeded_def
  doCertificateExchange_def connectSecurely_def requestSignedCertFromSonar_def
  emit_def add_def reconnect_def delayed_def Let_def new_effects_def

lemmas eval_defs =
  init_def env0_def dd0_def J0_def startSync_defs start_def stop_def remove_nth_def isOpen_def
  sendMessage_def sendMessage_lambda_def requestSignedCert_lambda_def subscribe_def
  ConnectionEvents_onConnected_def ConnectionEvents_onDisconnected_def
  ConnectionEvents_onClosed_def

subsection \<open>The path of an attempt\<close>

lemma startSync_ports:
  assumes "isRunningInOwnThread env" and "\<not> isOpen s"
  shows "map port (connect_attempts (new_effects s (startSync J env s))) =
     [if failedConnectionAttempts_m s \<ge> 2 \<or> \<not> hasRequiredFiles env
      then insecurePort else securePort]"
proof (cases "createConnectedClient env")
  case (Inl e)
  with assms show ?thesis by (cases e) (simp_all add: startSync_defs)
next
  case (Inr cid)
  with assms show ?thesis by (simp add: startSync_defs)
qed

lemma startSync_trust:
  assumes "isRunningInOwnThread env" and "\<not> isOpen s"
  shows "connectionIsTrusted_m (startSync J env s) \<longleftrightarrow>
     \<not> (failedConnectionAttempts_m s \<ge> 2 \<or> \<not> hasRequiredFiles env)"
proof (cases "createConnectedClient env")
  case (Inl e)
  with assms show ?thesis by (cases e) (simp_all add: startSync_defs)
next
  case (Inr cid)
  with assms show ?thesis by (simp add: startSync_defs)
qed

lemma startSync_guarded:
  assumes "\<not> (isRunningInOwnThread env \<and> \<not> isOpen s)"
  shows "startSync J env s =
     emit (Log (if \<not> isRunningInOwnThread env then WRONG_THREAD_EXIT_MSG
                else ''Already connected'')) s"
  using assms by (auto simp add: startSync_def)

lemma trace_startSync:
  "trace (startSync J env s) = trace s @ new_effects s (startSync J env s)"
proof (cases "createConnectedClient env")
  case (Inl e)
  then show ?thesis by (cases e) (simp_all add: startSync_defs)
next
  case (Inr cid)
  then show ?thesis by (simp add: startSync_defs)
qed

text \<open>
  C1.  An attempt is a run of \<open>startSync\<close> that passes its two guards (own thread, not
  already open).  It asks the transport for exactly one connection: to the insecure port
  (the certificate exchange) if and only if the failure counter is at least 2 or the
  trust store lacks the required files, and to the secure port if and only if neither
  holds.  So a counter of 2 forces the bootstrap path whatever \<open>hasRequiredFiles\<close> says.
\<close>

theorem startSync_path_decision:
  assumes "isRunningInOwnThread env" and "\<not> isOpen s"
  shows "(bootstrap_path_taken s (startSync J env s) \<longleftrightarrow>
            failedConnectionAttempts_m s \<ge> 2 \<or> \<not> hasRequiredFiles env) \<and>
         (secure_path_taken s (startSync J env s) \<longleftrightarrow>
            \<not> (failedConnectionAttempts_m s \<ge> 2 \<or> \<not> hasRequiredFiles env))"
  using startSync_ports [OF assms, of J]
  by (simp add: bootstrap_path_taken_def secure_path_taken_def insecurePort_def securePort_def)

theorem startSync_path_decision_witness:
  "isRunningInOwnThread (env0 True (Inr 1)) \<and>
   \<not> isOpen (state_of (run J0 two_failures (init dd0))) \<and>
   failedConnectionAttempts_m (state_of (run J0 two_failures (init dd0))) = 2 \<and>
   hasRequiredFiles (env0 True (Inr 1)) \<and>
   bootstrap_path_taken (state_of (run J0 two_failures (init dd0)))
     (startSync J0 (env0 True (Inr 1)) (state_of (run J0 two_failures (init dd0)))) \<and>
   \<not> secure_path_taken (state_of (run J0 two_failures (init dd0)))
     (startSync J0 (env0 True (Inr 1)) (state_of (run J0 two_failures (init dd0))))"
proof -
  let ?s = "state_of (run J0 two_failures (init dd0))"
  have h1: "isRunningInOwnThread (env0 True (Inr 1))"
    by (simp add: isRunningInOwnThread_def env0_def)
  have h2: "\<not> isOpen ?s"
    by (simp add: two_failures_def eval_defs)
  have h3: "failedConnectionAttempts_m ?s = 2"
    by (simp add: two_failures_def eval_defs)
  have h4: "hasRequiredFiles (env0 True (Inr 1))"
    by (simp add: env0_def)
  from startSync_path_decision [OF h1 h2, of J0] h1 h2 h3 h4 show ?thesis
    by auto
qed

subsection \<open>Only a trusted channel is open\<close>

lemma new_effects_shift:
  "trace s' = trace s @ pre \<Longrightarrow> trace s'' = trace s' @ xs \<Longrightarrow>
   new_effects s s'' = pre @ new_effects s' s''"
  by (simp add: new_effects_def)

lemma startSync_keeps_untrusted:
  assumes u: "\<not> connectionIsTrusted_m s"
    and n: "\<not> secure_attempt (new_effects s (startSync J env s))"
  shows "\<not> connectionIsTrusted_m (startSync J env s)"
proof (cases "isRunningInOwnThread env")
  case False
  with u show ?thesis by (simp add: startSync_guarded emit_def)
next
  case True
  from u have o: "\<not> isOpen s" by (simp add: isOpen_def)
  from n startSync_ports [OF True o, of J]
  have "failedConnectionAttempts_m s \<ge> 2 \<or> \<not> hasRequiredFiles env"
    by (auto simp add: secure_attempt_def)
  with startSync_trust [OF True o, of J] show ?thesis by simp
qed

lemma step_keeps_untrusted:
  assumes "\<not> connectionIsTrusted_m s"
    and "\<not> secure_attempt (new_effects s (state_of (step J e s)))"
  shows "\<not> connectionIsTrusted_m (state_of (step J e s))"
proof (cases e)
  case (RunTask env)
  show ?thesis
  proof (cases "queue s")
    case Nil
    with RunTask assms show ?thesis by simp
  next
    case (Cons t q)
    show ?thesis
    proof (cases t)
      case StartTask
      let ?s = "emit (StepComplete ''Start connection thread'') (s\<lparr>queue := q\<rparr>)"
      let ?env = "env\<lparr>isInEventBaseThread := True\<rparr>"
      have "new_effects s (startSync J ?env ?s) =
          StepComplete ''Start connection thread'' # new_effects ?s (startSync J ?env ?s)"
        using new_effects_shift [OF _ trace_startSync, of ?s s "[StepComplete ''Start connection thread'']"]
        by (simp add: emit_def)
      with assms RunTask Cons StartTask
      have "\<not> secure_attempt (new_effects ?s (startSync J ?env ?s))"
        by (simp add: secure_attempt_def)
      moreover from assms have "\<not> connectionIsTrusted_m ?s" by (simp add: emit_def)
      ultimately have "\<not> connectionIsTrusted_m (startSync J ?env ?s)"
        by (rule startSync_keeps_untrusted [rotated])
      with RunTask Cons StartTask show ?thesis by simp
    next
      case ReconnectTask
      let ?s = "s\<lparr>queue := q\<rparr>"
      let ?env = "env\<lparr>isInEventBaseThread := True\<rparr>"
      have "new_effects s (startSync J ?env ?s) = new_effects ?s (startSync J ?env ?s)"
        by (simp add: new_effects_def)
      with assms RunTask Cons ReconnectTask
      have "\<not> secure_attempt (new_effects ?s (startSync J ?env ?s))"
        by simp
      moreover from assms have "\<not> connectionIsTrusted_m ?s" by simp
      ultimately have "\<not> connectionIsTrusted_m (startSync J ?env ?s)"
        by (rule startSync_keeps_untrusted [rotated])
      with RunTask Cons ReconnectTask show ?thesis by simp
    next
      case (SendMessageTask m)
      with RunTask Cons assms show ?thesis
        by (simp add: sendMessage_lambda_def emit_def split: option.splits)
    next
      case (RequestCertTask m)
      with RunTask Cons assms show ?thesis
        by (simp add: requestSignedCert_lambda_def emit_def subscribe_def split: option.splits)
    qed
  qed
next
  case (CertificateResponse i p)
  with assms show ?thesis
    by (simp add: requestSignedCert_onResponse_def emit_def Let_def
        split: subscription.splits option.splits)
next
  case (CertificateError i x)
  with assms show ?thesis
    by (cases x) (simp_all add: sendLegacyCertificateRequest_def subscribe_def emit_def Let_def
        split: subscription.splits option.splits)
next
  case (FireAndForgetComplete i)
  with assms show ?thesis
    by (simp add: sendLegacyCertificateRequest_onComplete_def emit_def Let_def
        split: subscription.splits)
qed (use assms in \<open>simp_all add: start_def stop_def sendMessage_def add_def delayed_def emit_def
      ConnectionEvents_onConnected_def ConnectionEvents_onDisconnected_def
      ConnectionEvents_onClosed_def reconnect_def Responder_handleFireAndForget_def Let_def
      split: option.splits\<close>)

lemma run_keeps_untrusted:
  "\<not> connectionIsTrusted_m s \<Longrightarrow> no_secure_attempt J es s \<Longrightarrow>
   \<not> connectionIsTrusted_m (state_of (run J es s))"
proof (induction es arbitrary: s)
  case Nil
  then show ?case by simp
next
  case (Cons e es)
  from Cons.prems have u: "\<not> connectionIsTrusted_m (state_of (step J e s))"
    by (simp add: step_keeps_untrusted)
  show ?case
  proof (cases "step J e s")
    case (Returns s')
    with Cons.prems u Cons.IH [of s'] show ?thesis by simp
  next
    case (Throws x s')
    with u show ?thesis by simp
  next
    case (NullDereference s')
    with u show ?thesis by simp
  qed
qed

lemma doCertificateExchange_untrusted:
  "\<not> connectionIsTrusted_m (state_of (doCertificateExchange J env s))"
  by (cases "createConnectedClient env")
     (simp_all add: doCertificateExchange_def requestSignedCertFromSonar_def emit_def add_def
        Let_def)

text \<open>
  C2, as the code has it.  In every state \<open>t\<close>, \<open>isOpen\<close> is the conjunction of the
  channel-open flag and the trust flag.  \<open>doCertificateExchange\<close> leaves the trust flag
  false, whether its connect succeeds or throws, so \<open>isOpen\<close> is false after it; and it
  stays false through every run of events, the transport's Connected notification among
  them, until a handler starts a connection to the secure port (\<open>connectSecurely\<close> sets the
  trust flag before it connects).
\<close>

theorem isOpen_needs_trust:
  "isOpen t = (isOpen_m t \<and> connectionIsTrusted_m t) \<and>
   \<not> isOpen (state_of (doCertificateExchange J env s)) \<and>
   (no_secure_attempt J es (state_of (doCertificateExchange J env s)) \<longrightarrow>
      \<not> isOpen (state_of (run J es (state_of (doCertificateExchange J env s)))))"
  using doCertificateExchange_untrusted [of J env s]
    run_keeps_untrusted [of "state_of (doCertificateExchange J env s)" J es]
  by (simp add: isOpen_def)

theorem isOpen_needs_trust_witness:
  "no_secure_attempt J0 bootstrap_events
      (state_of (doCertificateExchange J0 (env0 False (Inr 1)) (init dd0))) \<and>
   isOpen_m (state_of (run J0 bootstrap_events
      (state_of (doCertificateExchange J0 (env0 False (Inr 1)) (init dd0))))) \<and>
   \<not> isOpen (state_of (run J0 bootstrap_events
      (state_of (doCertificateExchange J0 (env0 False (Inr 1)) (init dd0)))))"
proof -
  let ?s = "state_of (doCertificateExchange J0 (env0 False (Inr 1)) (init dd0))"
  have h: "no_secure_attempt J0 bootstrap_events ?s"
    by (simp add: bootstrap_events_def secure_attempt_def eval_defs)
  have o: "isOpen_m (state_of (run J0 bootstrap_events ?s))"
    by (simp add: bootstrap_events_def eval_defs)
  from isOpen_needs_trust [where J = J0 and env = "env0 False (Inr 1)" and s = "init dd0"
      and es = bootstrap_events] h o
  show ?thesis by blast
qed

text \<open>
  C2 as stated fails: the bootstrap channel is connected, so the open flag is true; a
  second \<open>startSync\<close> passes the guard (the trust flag is false), finds the files present
  and enters \<open>connectSecurely\<close>, which sets the trust flag and then throws in the connect;
  no handler clears the flag.  Now \<open>isOpen\<close> is true while the only channel ever connected,
  and the one installed, is the bootstrap channel, and the application was never called.
\<close>

theorem bootstrap_channel_reported_open:
  "isOpen (state_of (run J0 stale_trust (init dd0))) \<and>
   client_m (state_of (run J0 stale_trust (init dd0))) = Some bootstrap_client \<and>
   map port (connect_attempts (trace (state_of (run J0 stale_trust (init dd0))))) =
     [insecurePort, securePort] \<and>
   createConnectedClient handshake_fails =
     Inl (AsyncSocketException SSL_ERROR ''handshake failed'') \<and>
   callbacks (trace (state_of (run J0 stale_trust (init dd0)))) = []"
  by (simp add: stale_trust_def exchanging_def handshake_fails_def eval_defs callbacks_def
      bootstrap_client_def insecurePort_def securePort_def connectionKeepaliveSeconds_def)

subsection \<open>The failure counter\<close>

lemmas run_defs = before_stop_def after_stop_def connected_def refused_def

lemma startSync_counter:
  assumes "isRunningInOwnThread env" and "\<not> isOpen s"
  shows "failedConnectionAttempts_m (startSync J env s) =
     (case createConnectedClient env of
        Inr cid \<Rightarrow> 0
      | Inl (AsyncSocketException t msg) \<Rightarrow>
          if t = NOT_OPEN then failedConnectionAttempts_m s else failedConnectionAttempts_m s + 1
      | Inl e \<Rightarrow> failedConnectionAttempts_m s + 1)"
proof (cases "createConnectedClient env")
  case (Inl e)
  with assms show ?thesis by (cases e) (simp_all add: startSync_defs)
next
  case (Inr cid)
  with assms show ?thesis by (simp add: startSync_defs)
qed

lemma other_events_keep_counter:
  assumes "\<not> runs_startSync e s"
  shows "failedConnectionAttempts_m (state_of (step J e s)) = failedConnectionAttempts_m s"
proof (cases e)
  case (RunTask env)
  show ?thesis
  proof (cases "queue s")
    case Nil
    with RunTask show ?thesis by simp
  next
    case (Cons t q)
    with RunTask assms show ?thesis
      by (cases t)
        (simp_all add: runs_startSync_def sendMessage_lambda_def requestSignedCert_lambda_def
           emit_def subscribe_def split: option.splits)
  qed
next
  case (CertificateResponse i p)
  then show ?thesis
    by (simp add: requestSignedCert_onResponse_def emit_def Let_def
        split: subscription.splits option.splits)
next
  case (CertificateError i x)
  then show ?thesis
    by (cases x) (simp_all add: sendLegacyCertificateRequest_def subscribe_def emit_def Let_def
        split: subscription.splits option.splits)
next
  case (FireAndForgetComplete i)
  then show ?thesis
    by (simp add: sendLegacyCertificateRequest_onComplete_def emit_def Let_def
        split: subscription.splits)
qed (simp_all add: start_def stop_def sendMessage_def add_def delayed_def emit_def
      ConnectionEvents_onConnected_def ConnectionEvents_onDisconnected_def
      ConnectionEvents_onClosed_def reconnect_def Responder_handleFireAndForget_def Let_def
      split: option.splits)

text \<open>
  C3, as the code has it.  The counter counts the failed attempts of \<open>startSync\<close> on either
  path.  In an attempt (own thread, not already open): a connect that succeeds leaves the
  counter at 0, on the secure path and on the bootstrap path alike (there the certificate
  exchange has been started); an \<open>AsyncSocketException\<close> of type \<open>NOT_OPEN\<close> leaves it as it
  was; every other exception adds exactly 1, also when it was the bootstrap connect that
  threw.  A \<open>startSync\<close> stopped by a guard, and every event that does not run \<open>startSync\<close>,
  leave the counter as it was.
\<close>

theorem failure_counter_of_attempt:
  "(isRunningInOwnThread env \<and> \<not> isOpen s \<longrightarrow>
      failedConnectionAttempts_m (startSync J env s) =
        (case createConnectedClient env of
           Inr cid \<Rightarrow> 0
         | Inl (AsyncSocketException t msg) \<Rightarrow>
             if t = NOT_OPEN then failedConnectionAttempts_m s
             else failedConnectionAttempts_m s + 1
         | Inl e \<Rightarrow> failedConnectionAttempts_m s + 1)) \<and>
   (\<not> (isRunningInOwnThread env \<and> \<not> isOpen s) \<longrightarrow>
      failedConnectionAttempts_m (startSync J env s) = failedConnectionAttempts_m s) \<and>
   (\<not> runs_startSync e s \<longrightarrow>
      failedConnectionAttempts_m (state_of (step J e s)) = failedConnectionAttempts_m s)"
  using startSync_counter [of env s J] other_events_keep_counter [of e s J]
    startSync_guarded [of env s J]
  by (simp add: emit_def)

text \<open>
  After two failed secure attempts the counter is 2: a refused connect leaves it at 2, a
  \<open>startSync\<close> on a foreign thread leaves it at 2, \<open>stop\<close> leaves it at 2, and a bootstrap
  connect that times out makes it 3.
\<close>

theorem failure_counter_of_attempt_witness:
  "isRunningInOwnThread refused \<and>
   \<not> isOpen (state_of (run J0 two_failures (init dd0))) \<and>
   \<not> runs_startSync Stop (state_of (run J0 two_failures (init dd0))) \<and>
   failedConnectionAttempts_m (state_of (run J0 two_failures (init dd0))) = 2 \<and>
   failedConnectionAttempts_m
     (startSync J0 refused (state_of (run J0 two_failures (init dd0)))) = 2 \<and>
   failedConnectionAttempts_m
     (startSync J0 (refused\<lparr>isInEventBaseThread := False\<rparr>)
        (state_of (run J0 two_failures (init dd0)))) = 2 \<and>
   failedConnectionAttempts_m
     (state_of (step J0 Stop (state_of (run J0 two_failures (init dd0))))) = 2 \<and>
   failedConnectionAttempts_m
     (startSync J0 (env0 True (Inl (AsyncSocketException TIMED_OUT ''timed out'')))
        (state_of (run J0 two_failures (init dd0)))) = 3"
proof -
  let ?s = "state_of (run J0 two_failures (init dd0))"
  let ?t = "env0 True (Inl (AsyncSocketException TIMED_OUT ''timed out''))"
  have h1: "isRunningInOwnThread refused" "isRunningInOwnThread ?t"
    "\<not> isRunningInOwnThread (refused\<lparr>isInEventBaseThread := False\<rparr>)"
    by (simp_all add: isRunningInOwnThread_def refused_def env0_def)
  have h2: "\<not> isOpen ?s"
    by (simp add: two_failures_def eval_defs)
  have h3: "failedConnectionAttempts_m ?s = 2"
    by (simp add: two_failures_def eval_defs)
  have h4: "\<not> runs_startSync Stop ?s"
    by (simp add: runs_startSync_def)
  have h5: "createConnectedClient refused =
      Inl (AsyncSocketException NOT_OPEN ''connection refused'')"
    "createConnectedClient ?t = Inl (AsyncSocketException TIMED_OUT ''timed out'')"
    by (simp_all add: refused_def env0_def)
  from failure_counter_of_attempt [of refused ?s J0 Stop]
    failure_counter_of_attempt [of "refused\<lparr>isInEventBaseThread := False\<rparr>" ?s J0 Stop]
    failure_counter_of_attempt [of ?t ?s J0 Stop]
    h1 h2 h3 h4 h5
  show ?thesis by simp
qed

text \<open>
  C3 as stated fails: a first attempt without certificate files takes the bootstrap path,
  its connect throws, and the counter goes from 0 to 1.
\<close>

theorem bootstrap_failure_is_counted:
  "bootstrap_path_taken (init dd0)
     (startSync J0 (env0 False (Inl (StdException ''std::runtime_error'' ''connection reset'')))
        (init dd0)) \<and>
   failedConnectionAttempts_m (init dd0) = 0 \<and>
   failedConnectionAttempts_m
     (startSync J0 (env0 False (Inl (StdException ''std::runtime_error'' ''connection reset'')))
        (init dd0)) = 1"
  by (simp add: bootstrap_path_taken_def eval_defs)

subsection \<open>Stopping\<close>

text \<open>
  C4, as the code has it.  \<open>stop\<close> disconnects the installed client, if there is one, and
  empties the handle; the open flag, the trust flag, the pending timers and the run queue
  are as before.  Once the transport's Disconnected or Closed notification has been
  handled after \<open>stop\<close>, \<open>isOpen\<close> is false.
\<close>

theorem stop_effect:
  "client_m (stop s) = None \<and>
   new_effects s (stop s) = (case client_m s of Some c \<Rightarrow> [Disconnect c] | None \<Rightarrow> []) \<and>
   isOpen_m (stop s) = isOpen_m s \<and>
   connectionIsTrusted_m (stop s) = connectionIsTrusted_m s \<and>
   timers (stop s) = timers s \<and>
   queue (stop s) = queue s \<and>
   \<not> isOpen (ConnectionEvents_onDisconnected ew (stop s)) \<and>
   \<not> isOpen (ConnectionEvents_onClosed ew (stop s))"
  by (simp add: stop_def emit_def new_effects_def isOpen_def ConnectionEvents_onClosed_def
      ConnectionEvents_onDisconnected_def reconnect_def delayed_def Let_def
      split: option.splits)

theorem stop_effect_witness:
  "isOpen (state_of (run J0 connected (init dd0))) \<and>
   client_m (stop (state_of (run J0 connected (init dd0)))) = None \<and>
   isOpen (stop (state_of (run J0 connected (init dd0)))) \<and>
   \<not> isOpen (ConnectionEvents_onDisconnected None
               (stop (state_of (run J0 connected (init dd0)))))"
proof -
  let ?s = "state_of (run J0 connected (init dd0))"
  have o: "isOpen_m ?s \<and> connectionIsTrusted_m ?s"
    by (simp add: run_defs eval_defs)
  from stop_effect [of ?s None] o show ?thesis
    by (simp add: isOpen_def)
qed

text \<open>
  C4 as stated fails twice.  A reconnect scheduled before \<open>stop\<close> is still pending after
  it, and when it fires the controller connects: \<open>isOpen\<close> is true and the application has
  been told so.  And right after \<open>stop\<close> on an open connection \<open>isOpen\<close> is still true.
\<close>

theorem stop_does_not_cancel_reconnect:
  "timers (state_of (run J0 (before_stop @ [Stop]) (init dd0))) = [(2000, ReconnectTask)] \<and>
   isOpen (state_of (run J0 (before_stop @ [Stop] @ after_stop) (init dd0))) \<and>
   callbacks (trace (state_of (run J0 (before_stop @ [Stop] @ after_stop) (init dd0)))) =
     [CallbackOnConnected] \<and>
   isOpen (state_of (run J0 (connected @ [Stop]) (init dd0)))"
  by (simp add: run_defs eval_defs reconnectIntervalSeconds_def callbacks_def)

subsection \<open>The certificate exchange\<close>

lemmas client_defs = secure_client_def bootstrap_client_def securePort_def insecurePort_def
  connectionKeepaliveSeconds_def

text \<open>
  C5, as the code has it.  The success handler of the certificate request: a response
  body that is not empty and parses as JSON is stored with \<open>storeConnectionConfig\<close>, once,
  and the channel handle is emptied; an empty body is not stored and the handle is emptied
  all the same.
\<close>

theorem certificate_response_handling:
  "(p \<noteq> [] \<and> parseJson J p = Some config \<longrightarrow>
      returns (requestSignedCert_onResponse J p s) \<and>
      filter is_store (new_effects s (state_of (requestSignedCert_onResponse J p s))) =
        [StoreConnectionConfig config] \<and>
      client_m (state_of (requestSignedCert_onResponse J p s)) = None) \<and>
   (p = [] \<longrightarrow>
      returns (requestSignedCert_onResponse J p s) \<and>
      filter is_store (new_effects s (state_of (requestSignedCert_onResponse J p s))) = [] \<and>
      client_m (state_of (requestSignedCert_onResponse J p s)) = None)"
  by (simp add: requestSignedCert_onResponse_def emit_def new_effects_def Let_def)

theorem certificate_response_handling_witness:
  "''{}'' \<noteq> [] \<and> parseJson J0 ''{}'' = Some (DObject []) \<and>
   client_m (state_of (run J0 exchanging (init dd0))) \<noteq> None \<and>
   returns (requestSignedCert_onResponse J0 ''{}'' (state_of (run J0 exchanging (init dd0)))) \<and>
   filter is_store (new_effects (state_of (run J0 exchanging (init dd0)))
      (state_of (requestSignedCert_onResponse J0 ''{}'' (state_of (run J0 exchanging (init dd0)))))) =
        [StoreConnectionConfig (DObject [])] \<and>
   client_m (state_of (requestSignedCert_onResponse J0 ''{}''
      (state_of (run J0 exchanging (init dd0))))) = None \<and>
   filter is_store (new_effects (state_of (run J0 exchanging (init dd0)))
      (state_of (requestSignedCert_onResponse J0 [] (state_of (run J0 exchanging (init dd0)))))) = [] \<and>
   client_m (state_of (requestSignedCert_onResponse J0 []
      (state_of (run J0 exchanging (init dd0))))) = None"
proof -
  let ?s = "state_of (run J0 exchanging (init dd0))"
  have h1: "''{}'' \<noteq> [] \<and> parseJson J0 ''{}'' = Some (DObject [])"
    by (simp add: J0_def)
  have h2: "client_m ?s \<noteq> None"
    by (simp add: exchanging_def eval_defs)
  from certificate_response_handling [of "''{}''" J0 "DObject []" ?s]
    certificate_response_handling [of "[]" J0 "DObject []" ?s] h1 h2
  show ?thesis by simp
qed

text \<open>
  C5 as stated fails for a body that is not empty and does not parse: the parse throws out
  of the handler before anything else is done, nothing is stored, and the handle of the
  bootstrap channel stays installed.
\<close>

theorem malformed_response_keeps_channel:
  "''<html>'' \<noteq> [] \<and>
   step J0 (CertificateResponse 0 ''<html>'') (state_of (run J0 exchanging (init dd0))) =
     Throws parse_error
       ((state_of (run J0 exchanging (init dd0)))\<lparr>subscriptions := []\<rparr>) \<and>
   client_m (state_of (step J0 (CertificateResponse 0 ''<html>'')
      (state_of (run J0 exchanging (init dd0))))) \<noteq> None \<and>
   filter is_store (trace (state_of (step J0 (CertificateResponse 0 ''<html>'')
      (state_of (run J0 exchanging (init dd0)))))) = []"
  by (simp add: exchanging_def eval_defs requestSignedCert_onResponse_def)

lemma remove_nth_length: "length (remove_nth i xs) = length xs - (if i < length xs then 1 else 0)"
  by (auto simp add: remove_nth_def)

lemma legacy_step:
  assumes "client_m s = Some c" and "i < length (subscriptions s)"
    and "subscriptions s ! i = CertificateSubscription message"
  shows "step J (CertificateError i (ErrorWithPayload ''not implemented'')) s =
      Returns (s\<lparr>subscriptions := remove_nth i (subscriptions s) @ [LegacySubscription],
                 trace := trace s @ [StepStart ''Sending fallback certificate request'',
                                     FireAndForget c (toJson J message)]\<rparr>)"
  using assms by (simp add: sendLegacyCertificateRequest_def emit_def subscribe_def)

lemma legacy_complete_client:
  assumes "subscriptions s1 = xs @ [LegacySubscription]" and "k = length xs"
  shows "client_m (state_of (step J (FireAndForgetComplete k) s1)) = None"
  using assms by (simp add: sendLegacyCertificateRequest_onComplete_def Let_def emit_def)

text \<open>
  The error handler of the certificate request, called by the transport for the
  subscription that holds the message of the request, while a channel handle is installed
  (the request itself went out over the installed channel with that message, last line).
  For the payload \<open>''not implemented''\<close> the handler sends that same message as a
  fire-and-forget over the installed channel, and nothing else; the handle is still there
  after the handler and is emptied when the transport reports the send complete.  For any
  other payload, and for an error that is not an \<open>ErrorWithPayload\<close>, the handler logs the
  error and changes nothing else: no send, no timer, no queued work.
\<close>

lemma certificate_error_with_handle:
  assumes "client_m s = Some c" and "i < length (subscriptions s)"
    and "subscriptions s ! i = CertificateSubscription message"
  shows
    "(let r = step J (CertificateError i (ErrorWithPayload ''not implemented'')) s;
          k = length (subscriptions s) - 1
      in returns r \<and>
         filter is_send (new_effects s (state_of r)) = [FireAndForget c (toJson J message)] \<and>
         client_m (state_of r) = Some c \<and>
         timers (state_of r) = timers s \<and> queue (state_of r) = queue s \<and>
         subscriptions (state_of r) ! k = LegacySubscription \<and>
         client_m (state_of (step J (FireAndForgetComplete k) (state_of r))) = None) \<and>
     (payload \<noteq> ''not implemented'' \<longrightarrow>
        step J (CertificateError i (ErrorWithPayload payload)) s =
          Returns (emit (Log (''Desktop failed to provide certificates. Error from sonar desktop:''
                              @ [CHR 0x0A] @ payload))
                     (s\<lparr>subscriptions := remove_nth i (subscriptions s)\<rparr>))) \<and>
     step J (CertificateError i (StdException cls msg)) s =
       Returns (emit (Log (c_str (''Error during certificate exchange:'' @ cls @ '': '' @ msg)))
                  (s\<lparr>subscriptions := remove_nth i (subscriptions s)\<rparr>)) \<and>
     step J (CertificateError i (AsyncSocketException t msg)) s =
       Returns (emit (Log (c_str (''Error during certificate exchange:''
                                  @ ''folly::AsyncSocketException'' @ '': '' @ msg)))
                  (s\<lparr>subscriptions := remove_nth i (subscriptions s)\<rparr>)) \<and>
     step J (RunTask env) (s\<lparr>queue := RequestCertTask message # q\<rparr>) =
       Returns (subscribe (CertificateSubscription message)
                  (emit (RequestResponse c (toJson J message)) (s\<lparr>queue := q\<rparr>)))"
proof -
  let ?k = "length (subscriptions s) - 1"
  let ?xs = "remove_nth i (subscriptions s)"
  let ?s1 = "s\<lparr>subscriptions := ?xs @ [LegacySubscription],
                trace := trace s @ [StepStart ''Sending fallback certificate request'',
                                    FireAndForget c (toJson J message)]\<rparr>"
  have len: "?k = length ?xs"
    using assms(2) by (simp add: remove_nth_length)
  have r: "step J (CertificateError i (ErrorWithPayload ''not implemented'')) s = Returns ?s1"
    using assms by (rule legacy_step)
  have c: "client_m (state_of (step J (FireAndForgetComplete ?k) ?s1)) = None"
    by (rule legacy_complete_client [where xs = ?xs]) (simp, rule len)
  have n: "subscriptions ?s1 ! ?k = LegacySubscription"
    using len by simp
  have first: "let r = step J (CertificateError i (ErrorWithPayload ''not implemented'')) s;
          k = length (subscriptions s) - 1
      in returns r \<and>
         filter is_send (new_effects s (state_of r)) = [FireAndForget c (toJson J message)] \<and>
         client_m (state_of r) = Some c \<and>
         timers (state_of r) = timers s \<and> queue (state_of r) = queue s \<and>
         subscriptions (state_of r) ! k = LegacySubscription \<and>
         client_m (state_of (step J (FireAndForgetComplete k) (state_of r))) = None"
    unfolding Let_def r using c n assms(1) by (simp add: new_effects_def)
  have rest: "(payload \<noteq> ''not implemented'' \<longrightarrow>
        step J (CertificateError i (ErrorWithPayload payload)) s =
          Returns (emit (Log (''Desktop failed to provide certificates. Error from sonar desktop:''
                              @ [CHR 0x0A] @ payload))
                     (s\<lparr>subscriptions := remove_nth i (subscriptions s)\<rparr>))) \<and>
     step J (CertificateError i (StdException cls msg)) s =
       Returns (emit (Log (c_str (''Error during certificate exchange:'' @ cls @ '': '' @ msg)))
                  (s\<lparr>subscriptions := remove_nth i (subscriptions s)\<rparr>)) \<and>
     step J (CertificateError i (AsyncSocketException t msg)) s =
       Returns (emit (Log (c_str (''Error during certificate exchange:''
                                  @ ''folly::AsyncSocketException'' @ '': '' @ msg)))
                  (s\<lparr>subscriptions := remove_nth i (subscriptions s)\<rparr>))"
    using assms by (simp add: exception_wrapper_what_def)
  have request: "step J (RunTask env) (s\<lparr>queue := RequestCertTask message # q\<rparr>) =
       Returns (subscribe (CertificateSubscription message)
                  (emit (RequestResponse c (toJson J message)) (s\<lparr>queue := q\<rparr>)))"
    using assms(1) by (simp add: requestSignedCert_lambda_def emit_def)
  from first rest request show ?thesis by blast
qed

text \<open>
  C6.  The claim holds while a channel handle is installed (the lemma above), but
  \<open>sendLegacyCertificateRequest\<close> reads \<^verbatim>\<open>client_\<close> without the test that the lambda of
  \<open>sendMessage\<close> makes.  When \<open>stop\<close> has emptied the handle between the certificate request
  and the desktop's answer, the handler of the error \<open>''not implemented''\<close> dereferences the
  empty handle: it does not return, the message is not sent again, and the only send on
  record is the original request.
\<close>

theorem legacy_fallback_without_handle:
  "client_m (state_of (run J0 (exchanging @ [Stop]) (init dd0))) = None \<and>
   subscriptions (state_of (run J0 (exchanging @ [Stop]) (init dd0))) =
     [CertificateSubscription (DObject [(''method'', DString ''signCertificate''),
        (''csr'', DString ''CSR''), (''destination'', DString ''/certs'')])] \<and>
   step J0 (CertificateError 0 (ErrorWithPayload ''not implemented''))
     (state_of (run J0 (exchanging @ [Stop]) (init dd0))) =
     NullDereference
       (emit (StepStart ''Sending fallback certificate request'')
          ((state_of (run J0 (exchanging @ [Stop]) (init dd0)))\<lparr>subscriptions := []\<rparr>)) \<and>
   \<not> returns (step J0 (CertificateError 0 (ErrorWithPayload ''not implemented''))
     (state_of (run J0 (exchanging @ [Stop]) (init dd0)))) \<and>
   filter is_send (trace (state_of (step J0 (CertificateError 0 (ErrorWithPayload ''not implemented''))
     (state_of (run J0 (exchanging @ [Stop]) (init dd0)))))) =
     [RequestResponse bootstrap_client ''method=signCertificate'']"
  by (simp add: exchanging_def eval_defs c_str_def sendLegacyCertificateRequest_def
      bootstrap_client_def insecurePort_def connectionKeepaliveSeconds_def)

subsection \<open>Sending\<close>

text \<open>
  C7, as the code has it.  \<open>sendMessage\<close> returns, having only put its continuation at the
  end of the run queue.  When that continuation runs while the channel handle is empty,
  nothing is sent and the continuation is gone: the state is the one in which the message
  was never queued, so nothing can deliver it later.
\<close>

theorem sendMessage_dropped_without_handle:
  "step J (SendMessage message) s = Returns (s\<lparr>queue := queue s @ [SendMessageTask message]\<rparr>) \<and>
   (client_m s = None \<and> queue s = SendMessageTask message # q \<longrightarrow>
      step J (RunTask env) s = Returns (s\<lparr>queue := q\<rparr>))"
  by (simp add: sendMessage_def add_def sendMessage_lambda_def)

theorem sendMessage_dropped_without_handle_witness:
  "client_m (state_of (run J0 (before_stop @ [SendMessage ping]) (init dd0))) = None \<and>
   queue (state_of (run J0 (before_stop @ [SendMessage ping]) (init dd0))) =
     [SendMessageTask ping] \<and>
   step J0 (RunTask refused) (state_of (run J0 (before_stop @ [SendMessage ping]) (init dd0))) =
     Returns ((state_of (run J0 (before_stop @ [SendMessage ping]) (init dd0)))\<lparr>queue := []\<rparr>) \<and>
   filter is_send (trace (state_of (run J0 (before_stop @ [SendMessage ping]) (init dd0)))) = []"
proof -
  let ?s = "state_of (run J0 (before_stop @ [SendMessage ping]) (init dd0))"
  have h1: "client_m ?s = None"
    by (simp add: run_defs eval_defs)
  have h2: "queue ?s = [SendMessageTask ping]"
    by (simp add: run_defs eval_defs)
  have h3: "filter is_send (trace ?s) = []"
    by (simp add: run_defs eval_defs)
  from sendMessage_dropped_without_handle [of J0 ping ?s "[]" refused] h1 h2 h3
  show ?thesis by blast
qed

text \<open>
  C7 as stated fails: the handle is tested when the continuation runs, not when
  \<open>sendMessage\<close> is called.  A message sent while no channel is open and no handle is
  installed, with the first \<open>startSync\<close> ahead of it in the run queue, is delivered over
  the channel that \<open>startSync\<close> opens.
\<close>

theorem message_sent_while_connecting_is_delivered:
  "client_m (state_of (run J0 starting (init dd0))) = None \<and>
   \<not> isOpen_m (state_of (run J0 starting (init dd0))) \<and>
   filter is_send (trace (state_of (run J0 early_send (init dd0)))) =
     [FireAndForget secure_client ''method=ping'']"
  by (simp add: early_send_def starting_def ping_def eval_defs client_defs)

text \<open>
  C9.  The continuation of \<open>sendMessage\<close> tests the handle and nothing else: whenever it
  runs with a handle installed, whatever the two flags say, the payload goes out over that
  channel.  After a bootstrap connect the installed handle is the channel to the insecure
  port, made without TLS material, and the trust flag is false: a message sent then goes
  over that channel.
\<close>

lemma doCertificateExchange_client:
  assumes "createConnectedClient env = Inr cid"
  shows "\<exists>c. client_m (state_of (doCertificateExchange J env s)) = Some c \<and>
     clientId c = cid \<and> port (params c) = insecurePort \<and> sslContext (params c) = None \<and>
     \<not> responder (params c)"
  using assms
  by (simp add: doCertificateExchange_def requestSignedCertFromSonar_def emit_def add_def
      Let_def)

theorem send_checks_handle_only:
  "(client_m s = Some c \<and> queue s = SendMessageTask message # q \<longrightarrow>
      step J (RunTask env) s =
        Returns (emit (FireAndForget c (toJson J message)) (s\<lparr>queue := q\<rparr>))) \<and>
   (createConnectedClient env = Inr cid \<longrightarrow>
      \<not> connectionIsTrusted_m (state_of (doCertificateExchange J env s)) \<and>
      (\<exists>c. client_m (state_of (doCertificateExchange J env s)) = Some c \<and>
           clientId c = cid \<and> port (params c) = insecurePort \<and>
           sslContext (params c) = None \<and>
           new_effects (state_of (doCertificateExchange J env s))
             (sendMessage_lambda J message (state_of (doCertificateExchange J env s))) =
               [FireAndForget c (toJson J message)]))"
proof -
  have a: "step J (RunTask env) s =
      Returns (emit (FireAndForget c (toJson J message)) (s\<lparr>queue := q\<rparr>))"
    if "client_m s = Some c" and "queue s = SendMessageTask message # q"
    using that by (simp add: sendMessage_lambda_def emit_def)
  have b: "\<exists>c. client_m t = Some c \<and> clientId c = cid \<and> port (params c) = insecurePort \<and>
           sslContext (params c) = None \<and>
           new_effects t (sendMessage_lambda J message t) = [FireAndForget c (toJson J message)]"
    if "\<exists>c. client_m t = Some c \<and> clientId c = cid \<and> port (params c) = insecurePort \<and>
           sslContext (params c) = None \<and> \<not> responder (params c)" for t
    using that by (auto simp add: sendMessage_lambda_def emit_def new_effects_def)
  from a b [OF doCertificateExchange_client] doCertificateExchange_untrusted [of J env s]
  show ?thesis by blast
qed

theorem send_checks_handle_only_witness:
  "client_m (state_of (run J0 (exchanging @ [SendMessage ping]) (init dd0))) =
     Some bootstrap_client \<and>
   queue (state_of (run J0 (exchanging @ [SendMessage ping]) (init dd0))) =
     [SendMessageTask ping] \<and>
   \<not> connectionIsTrusted_m (state_of (run J0 (exchanging @ [SendMessage ping]) (init dd0))) \<and>
   createConnectedClient (env0 False (Inr 1)) = Inr 1 \<and>
   step J0 (RunTask (env0 False (Inr 1)))
     (state_of (run J0 (exchanging @ [SendMessage ping]) (init dd0))) =
     Returns (emit (FireAndForget bootstrap_client ''method=ping'')
                ((state_of (run J0 (exchanging @ [SendMessage ping]) (init dd0)))\<lparr>queue := []\<rparr>))"
proof -
  let ?s = "state_of (run J0 (exchanging @ [SendMessage ping]) (init dd0))"
  have h1: "client_m ?s = Some bootstrap_client"
    by (simp add: exchanging_def eval_defs client_defs)
  have h2: "queue ?s = [SendMessageTask ping]"
    by (simp add: exchanging_def eval_defs)
  have h3: "\<not> connectionIsTrusted_m ?s"
    by (simp add: exchanging_def eval_defs)
  have h4: "createConnectedClient (env0 False (Inr 1)) = Inr 1"
    by (simp add: env0_def)
  have j: "toJson J0 ping = ''method=ping''"
    by (simp add: J0_def ping_def)
  from send_checks_handle_only [of ?s bootstrap_client ping "[]" J0 "env0 False (Inr 1)" 1]
    h1 h2 h3 h4 j
  show ?thesis by simp
qed

subsection \<open>Lifecycle notifications of the transport\<close>

lemma startSync_lifecycle_callbacks:
  "lifecycle_callbacks (trace (startSync J env s)) = lifecycle_callbacks (trace s)"
proof (cases "createConnectedClient env")
  case (Inl e)
  then show ?thesis by (cases e) (simp_all add: startSync_defs lifecycle_callbacks_def)
next
  case (Inr cid)
  then show ?thesis by (simp add: startSync_defs lifecycle_callbacks_def)
qed

lemma doCertificateExchange_lifecycle_callbacks:
  "lifecycle_callbacks (trace (state_of (doCertificateExchange J env s))) =
     lifecycle_callbacks (trace s)"
  by (cases "createConnectedClient env")
     (simp_all add: doCertificateExchange_def requestSignedCertFromSonar_def emit_def add_def
        lifecycle_callbacks_def Let_def)

lemma step_lifecycle_callbacks_untrusted:
  assumes "\<not> connectionIsTrusted_m s"
  shows "lifecycle_callbacks (trace (state_of (step J e s))) = lifecycle_callbacks (trace s)"
proof (cases e)
  case (RunTask env)
  show ?thesis
  proof (cases "queue s")
    case Nil
    with RunTask show ?thesis by simp
  next
    case (Cons t q)
    show ?thesis
    proof (cases t)
      case StartTask
      have "lifecycle_callbacks
          (trace (emit (StepComplete ''Start connection thread'') (s\<lparr>queue := q\<rparr>))) =
          lifecycle_callbacks (trace s)"
        by (simp add: emit_def lifecycle_callbacks_def)
      with RunTask Cons StartTask show ?thesis
        by (simp add: startSync_lifecycle_callbacks)
    next
      case ReconnectTask
      with RunTask Cons show ?thesis
        by (simp add: startSync_lifecycle_callbacks)
    next
      case (SendMessageTask m)
      with RunTask Cons show ?thesis
        by (simp add: sendMessage_lambda_def emit_def lifecycle_callbacks_def
            split: option.splits)
    next
      case (RequestCertTask m)
      with RunTask Cons show ?thesis
        by (simp add: requestSignedCert_lambda_def emit_def subscribe_def
            lifecycle_callbacks_def split: option.splits)
    qed
  qed
next
  case (CertificateResponse i p)
  then show ?thesis
    by (simp add: requestSignedCert_onResponse_def emit_def lifecycle_callbacks_def Let_def
        split: subscription.splits option.splits)
next
  case (CertificateError i x)
  then show ?thesis
    by (cases x) (simp_all add: sendLegacyCertificateRequest_def subscribe_def emit_def
        lifecycle_callbacks_def Let_def split: subscription.splits option.splits)
next
  case (FireAndForgetComplete i)
  then show ?thesis
    by (simp add: sendLegacyCertificateRequest_onComplete_def emit_def lifecycle_callbacks_def
        Let_def split: subscription.splits)
qed (use assms in \<open>simp_all add: start_def stop_def sendMessage_def add_def delayed_def emit_def
      ConnectionEvents_onConnected_def ConnectionEvents_onDisconnected_def
      ConnectionEvents_onClosed_def reconnect_def Responder_handleFireAndForget_def
      lifecycle_callbacks_def Let_def split: option.splits\<close>)

lemma run_lifecycle_callbacks_untrusted:
  "\<not> connectionIsTrusted_m s \<Longrightarrow> no_secure_attempt J es s \<Longrightarrow>
   lifecycle_callbacks (trace (state_of (run J es s))) = lifecycle_callbacks (trace s)"
proof (induction es arbitrary: s)
  case Nil
  then show ?case by simp
next
  case (Cons e es)
  from Cons.prems have u: "\<not> connectionIsTrusted_m (state_of (step J e s))"
    by (simp add: step_keeps_untrusted)
  from Cons.prems(1)
  have c: "lifecycle_callbacks (trace (state_of (step J e s))) = lifecycle_callbacks (trace s)"
    by (rule step_lifecycle_callbacks_untrusted)
  show ?case
  proof (cases "step J e s")
    case (Returns s')
    with Cons.prems u c Cons.IH [of s'] show ?thesis by simp
  next
    case (Throws x s')
    with c show ?thesis by simp
  next
    case (NullDereference s')
    with c show ?thesis by simp
  qed
qed

text \<open>
  C8, as the code has it.  \<open>onConnected\<close> sets the open flag, leaves the trust flag, and
  calls the application's \<open>onConnected\<close> exactly when the trust flag is true.
  \<open>onDisconnected\<close> changes nothing when the open flag is already false; otherwise it clears
  the open flag and the trust flag, calls the application's \<open>onDisconnected\<close> exactly when
  the trust flag was true, and schedules one reconnect after the reconnect interval.
  \<open>onClosed\<close> is \<open>onDisconnected\<close>.  So a second notification of the same loss changes
  nothing.  And from \<open>doCertificateExchange\<close> on, through every run of events in which no
  handler starts a connection to the secure port, neither \<open>onConnected\<close> nor
  \<open>onDisconnected\<close> of the application is called: a bootstrap channel that connects and is
  torn down in such a run is not reported.
\<close>

theorem lifecycle_events:
  "isOpen_m (ConnectionEvents_onConnected s) \<and>
   connectionIsTrusted_m (ConnectionEvents_onConnected s) = connectionIsTrusted_m s \<and>
   new_effects s (ConnectionEvents_onConnected s) =
     (if connectionIsTrusted_m s then [CallbackOnConnected] else []) \<and>
   (\<not> isOpen_m s \<longrightarrow> ConnectionEvents_onDisconnected ew s = s) \<and>
   (isOpen_m s \<longrightarrow>
      \<not> isOpen_m (ConnectionEvents_onDisconnected ew s) \<and>
      \<not> connectionIsTrusted_m (ConnectionEvents_onDisconnected ew s) \<and>
      new_effects s (ConnectionEvents_onDisconnected ew s) =
        (if connectionIsTrusted_m s then [CallbackOnDisconnected] else []) \<and>
      timers (ConnectionEvents_onDisconnected ew s) =
        timers s @ [(reconnectIntervalSeconds * 1000, ReconnectTask)]) \<and>
   ConnectionEvents_onClosed ew s = ConnectionEvents_onDisconnected ew s \<and>
   ConnectionEvents_onDisconnected ew' (ConnectionEvents_onDisconnected ew s) =
     ConnectionEvents_onDisconnected ew s \<and>
   callbacks (new_effects (state_of (doCertificateExchange J env s))
      (ConnectionEvents_onDisconnected ew
         (ConnectionEvents_onConnected (state_of (doCertificateExchange J env s))))) = [] \<and>
   (no_secure_attempt J es (state_of (doCertificateExchange J env s)) \<longrightarrow>
      lifecycle_callbacks
        (trace (state_of (run J es (state_of (doCertificateExchange J env s))))) =
      lifecycle_callbacks (trace s))"
proof -
  have b: "\<not> connectionIsTrusted_m (state_of (doCertificateExchange J env s))"
    by (rule doCertificateExchange_untrusted)
  have "callbacks (new_effects t
      (ConnectionEvents_onDisconnected ew (ConnectionEvents_onConnected t))) = []"
    if "\<not> connectionIsTrusted_m t" for t
    using that
    by (simp add: ConnectionEvents_onConnected_def ConnectionEvents_onDisconnected_def
        reconnect_def delayed_def emit_def new_effects_def callbacks_def Let_def)
  with b have handlers:
    "isOpen_m (ConnectionEvents_onConnected s) \<and>
     connectionIsTrusted_m (ConnectionEvents_onConnected s) = connectionIsTrusted_m s \<and>
     new_effects s (ConnectionEvents_onConnected s) =
       (if connectionIsTrusted_m s then [CallbackOnConnected] else []) \<and>
     (\<not> isOpen_m s \<longrightarrow> ConnectionEvents_onDisconnected ew s = s) \<and>
     (isOpen_m s \<longrightarrow>
        \<not> isOpen_m (ConnectionEvents_onDisconnected ew s) \<and>
        \<not> connectionIsTrusted_m (ConnectionEvents_onDisconnected ew s) \<and>
        new_effects s (ConnectionEvents_onDisconnected ew s) =
          (if connectionIsTrusted_m s then [CallbackOnDisconnected] else []) \<and>
        timers (ConnectionEvents_onDisconnected ew s) =
          timers s @ [(reconnectIntervalSeconds * 1000, ReconnectTask)]) \<and>
     ConnectionEvents_onClosed ew s = ConnectionEvents_onDisconnected ew s \<and>
     ConnectionEvents_onDisconnected ew' (ConnectionEvents_onDisconnected ew s) =
       ConnectionEvents_onDisconnected ew s \<and>
     callbacks (new_effects (state_of (doCertificateExchange J env s))
        (ConnectionEvents_onDisconnected ew
           (ConnectionEvents_onConnected (state_of (doCertificateExchange J env s))))) = []"
    by (simp add: ConnectionEvents_onConnected_def ConnectionEvents_onDisconnected_def
        ConnectionEvents_onClosed_def reconnect_def delayed_def emit_def new_effects_def
        Let_def)
  have runs: "lifecycle_callbacks
        (trace (state_of (run J es (state_of (doCertificateExchange J env s))))) =
      lifecycle_callbacks (trace s)"
    if "no_secure_attempt J es (state_of (doCertificateExchange J env s))"
    using run_lifecycle_callbacks_untrusted [OF b that]
    by (simp add: doCertificateExchange_lifecycle_callbacks)
  from handlers runs show ?thesis by blast
qed

theorem lifecycle_events_witness:
  "isOpen_m (state_of (run J0 connected (init dd0))) \<and>
   connectionIsTrusted_m (state_of (run J0 connected (init dd0))) \<and>
   callbacks (trace (state_of (run J0 connected (init dd0)))) = [CallbackOnConnected] \<and>
   new_effects (state_of (run J0 connected (init dd0)))
     (ConnectionEvents_onDisconnected None (state_of (run J0 connected (init dd0)))) =
       [CallbackOnDisconnected] \<and>
   \<not> isOpen_m (ConnectionEvents_onDisconnected None (state_of (run J0 connected (init dd0)))) \<and>
   ConnectionEvents_onClosed None
     (ConnectionEvents_onDisconnected None (state_of (run J0 connected (init dd0)))) =
     ConnectionEvents_onDisconnected None (state_of (run J0 connected (init dd0))) \<and>
   no_secure_attempt J0 bootstrap_teardown
     (state_of (doCertificateExchange J0 (env0 False (Inr 1)) (init dd0))) \<and>
   client_m (state_of (run J0 bootstrap_teardown
     (state_of (doCertificateExchange J0 (env0 False (Inr 1)) (init dd0))))) = None \<and>
   lifecycle_callbacks (trace (state_of (run J0 bootstrap_teardown
     (state_of (doCertificateExchange J0 (env0 False (Inr 1)) (init dd0)))))) = []"
proof -
  let ?s = "state_of (run J0 connected (init dd0))"
  let ?b = "state_of (doCertificateExchange J0 (env0 False (Inr 1)) (init dd0))"
  have o: "isOpen_m ?s" "connectionIsTrusted_m ?s"
    by (simp_all add: run_defs eval_defs)
  have c: "callbacks (trace ?s) = [CallbackOnConnected]"
    by (simp add: run_defs eval_defs callbacks_def)
  have n: "no_secure_attempt J0 bootstrap_teardown ?b"
    by (simp add: bootstrap_teardown_def refused_def secure_attempt_def eval_defs
        requestSignedCert_onResponse_def)
  have h: "client_m (state_of (run J0 bootstrap_teardown ?b)) = None"
    by (simp add: bootstrap_teardown_def refused_def eval_defs requestSignedCert_onResponse_def)
  have i: "lifecycle_callbacks (trace (init dd0)) = []"
    by (simp add: init_def lifecycle_callbacks_def)
  from lifecycle_events [of ?s None None J0 refused "[]"]
    lifecycle_events [of "ConnectionEvents_onDisconnected None ?s" None None J0 refused "[]"]
    lifecycle_events [of "init dd0" None None J0 "env0 False (Inr 1)" bootstrap_teardown]
    o c n h i
  show ?thesis by simp
qed

text \<open>
  C8 as stated fails in its conclusion.  With the bootstrap channel connected and the
  trust flag left true by a second attempt whose secure connect threw, the close of the
  bootstrap channel, the only channel ever connected, calls the application's
  \<open>onDisconnected\<close>, and no \<open>onConnected\<close> came before it.
\<close>

theorem bootstrap_teardown_calls_onDisconnected:
  "client_m (state_of (run J0 stale_trust (init dd0))) = Some bootstrap_client \<and>
   callbacks (trace (state_of (run J0 stale_trust (init dd0)))) = [] \<and>
   map port (connect_attempts
     (trace (state_of (run J0 (stale_trust @ [TransportClosed None]) (init dd0))))) =
     [insecurePort, securePort] \<and>
   callbacks (trace (state_of (run J0 (stale_trust @ [TransportClosed None]) (init dd0)))) =
     [CallbackOnDisconnected]"
  by (simp add: stale_trust_def exchanging_def handshake_fails_def eval_defs callbacks_def
      bootstrap_client_def insecurePort_def securePort_def connectionKeepaliveSeconds_def)

subsection \<open>Inbound messages\<close>

text \<open>
  C10.  The responder gives the application the JSON value parsed from the payload of an
  inbound fire-and-forget; when the payload does not parse, the parse throws out of the
  handler and the application is not called.  The responder sits on the client made by
  \<open>connectSecurely\<close> and not on the one made by \<open>doCertificateExchange\<close>.
\<close>

theorem inbound_fire_and_forget:
  "(parseJson J request = Some message \<longrightarrow>
      returns (Responder_handleFireAndForget J request s) \<and>
      new_effects s (state_of (Responder_handleFireAndForget J request s)) =
        [CallbackOnMessageReceived message]) \<and>
   (parseJson J request = None \<longrightarrow>
      Responder_handleFireAndForget J request s = Throws parse_error s) \<and>
   (has_responder s \<longrightarrow>
      step J (InboundFireAndForget request) s = Responder_handleFireAndForget J request s) \<and>
   (createConnectedClient env = Inr cid \<longrightarrow>
      has_responder (state_of (connectSecurely J env s)) \<and>
      \<not> has_responder (state_of (doCertificateExchange J env s)))"
  by (simp add: Responder_handleFireAndForget_def emit_def new_effects_def has_responder_def
      connectSecurely_def doCertificateExchange_def requestSignedCertFromSonar_def add_def
      Let_def)

theorem inbound_fire_and_forget_witness:
  "has_responder (state_of (run J0 connected (init dd0))) \<and>
   createConnectedClient (env0 True (Inr 7)) = Inr 7 \<and>
   has_responder (state_of (connectSecurely J0 (env0 True (Inr 7))
     (state_of (run J0 connected (init dd0))))) \<and>
   parseJson J0 ''[1]'' = Some (DArray [DInt 1]) \<and>
   parseJson J0 ''oops'' = None \<and>
   new_effects (state_of (run J0 connected (init dd0)))
     (state_of (step J0 (InboundFireAndForget ''[1]'') (state_of (run J0 connected (init dd0))))) =
       [CallbackOnMessageReceived (DArray [DInt 1])] \<and>
   step J0 (InboundFireAndForget ''oops'') (state_of (run J0 connected (init dd0))) =
     Throws parse_error (state_of (run J0 connected (init dd0)))"
proof -
  let ?s = "state_of (run J0 connected (init dd0))"
  have h1: "has_responder ?s"
    by (simp add: run_defs eval_defs has_responder_def)
  have h2: "parseJson J0 ''[1]'' = Some (DArray [DInt 1])" "parseJson J0 ''oops'' = None"
    by (simp_all add: J0_def)
  have h3: "createConnectedClient (env0 True (Inr 7)) = Inr 7"
    by (simp add: env0_def)
  from inbound_fire_and_forget [of J0 "''[1]''" "DArray [DInt 1]" ?s "env0 True (Inr 7)" 7]
    inbound_fire_and_forget [of J0 "''oops''" "DArray [DInt 1]" ?s "env0 True (Inr 7)" 7]
    h1 h2 h3
  show ?thesis by simp
qed

end
